theory Spec2Isabelle
  imports Main
begin

section \<open>The OCRA token class of privacyIDEA\<close>

text \<open>
  This theory embeds \<^verbatim>\<open>privacyidea/lib/tokens/ocratoken.py\<close>: the class
  \<^verbatim>\<open>OcraTokenClass\<close> with its methods \<^verbatim>\<open>update\<close>, \<^verbatim>\<open>create_challenge\<close>,
  \<^verbatim>\<open>verify_response\<close>, \<^verbatim>\<open>check_otp\<close> and \<^verbatim>\<open>get_import_csv\<close>.

  The class orchestrates collaborators that live in other modules: the OCRA suite
  parser, the base class \<^verbatim>\<open>TokenClass\<close>, the challenge table, the
  configuration, hashlib. Collaborators whose behaviour the module does not fix are
  fields of the record \<open>env\<close>, so every theorem below holds for each of their
  implementations; the few whose behaviour is fixed by the description of the system
  are definitions, marked as such.

  A method that mutates state and may raise returns a pair: the outcome (\<open>Inl\<close> an
  exception, \<open>Inr\<close> the returned value) and the state as it is when the method is left.
  An exception does not undo the mutations made before it, so the state component of an
  \<open>Inl\<close> outcome is the state at the point of the raise.
\<close>

subsection \<open>Python values, exceptions and string methods\<close>

text \<open>
  Values read from the configuration, from the \<^verbatim>\<open>addrandomchallenge\<close> option and
  from imported rows are either text or integers; the code coerces them with
  \<^verbatim>\<open>int(...)\<close>.
\<close>

datatype pyval = VStr string | VInt int

datatype error =
    KeyError string
  | TypeError
  | ValueError
  | Raised string

text \<open>Truthiness, as \<^verbatim>\<open>if x:\<close> tests it.\<close>

fun truthy :: "pyval \<Rightarrow> bool" where
  "truthy (VStr s) = (s \<noteq> [])"
| "truthy (VInt i) = (i \<noteq> 0)"

text \<open>
  Strings are lists of 8-bit characters. \<^verbatim>\<open>str.lower\<close> and \<^verbatim>\<open>str.capitalize\<close>
  are modelled on the ASCII letters, \<^verbatim>\<open>str.strip\<close> on the white space of that range.
\<close>

definition lower_char :: "char \<Rightarrow> char" where
  "lower_char c =
     (let n = (of_char c :: nat) in if 65 \<le> n \<and> n \<le> 90 then char_of (n + 32) else c)"

definition upper_char :: "char \<Rightarrow> char" where
  "upper_char c =
     (let n = (of_char c :: nat) in if 97 \<le> n \<and> n \<le> 122 then char_of (n - 32) else c)"

definition py_lower :: "string \<Rightarrow> string" where
  "py_lower s = map lower_char s"

definition py_capitalize :: "string \<Rightarrow> string" where
  "py_capitalize s = (case s of [] \<Rightarrow> [] | c # cs \<Rightarrow> upper_char c # map lower_char cs)"

definition is_space :: "char \<Rightarrow> bool" where
  "is_space c =
     (let n = (of_char c :: nat)
      in (9 \<le> n \<and> n \<le> 13) \<or> (28 \<le> n \<and> n \<le> 32) \<or> n = 133 \<or> n = 160)"

definition py_strip :: "string \<Rightarrow> string" where
  "py_strip s = rev (dropWhile is_space (rev (dropWhile is_space s)))"

subsection \<open>The token, the user, the challenge table\<close>

record user =
  login :: string
  realm :: string

text \<open>
  The token object with the columns of its database row that this module reads or
  writes through the base class.
\<close>

record token =
  serial :: string
  tokentype :: string
  hKeyRequired :: bool
  owner :: "user option"
  tokeninfo :: "string \<rightharpoonup> string"
  realms :: "string list"
  otpkey :: string
  locked :: bool

text \<open>A row of the challenge table, with the arguments of the \<^verbatim>\<open>Challenge\<close> constructor.\<close>

record challenge_row =
  ch_serial :: string
  ch_transaction_id :: string
  ch_challenge :: string
  ch_data :: "string option"
  ch_session :: "string option"
  ch_validitytime :: int

text \<open>
  What \<^verbatim>\<open>create_challenge\<close> works on besides the token: the configuration, the
  challenge table, and the source of randomness (an infinite sequence of raw draws and
  the position of the next unused one).
\<close>

record world =
  config :: "string \<rightharpoonup> pyval"
  challenges :: "challenge_row list"
  entropy :: "nat \<Rightarrow> nat"
  cursor :: nat

text \<open>
  The \<^verbatim>\<open>options\<close> dictionary of a request. The module reads three keys of it and
  ignores every other one; a field is \<open>None\<close> when the key is absent. The challenge
  and the hashing option are text (the code appends to the one and calls
  \<^verbatim>\<open>.lower()\<close> on the other); the length of the random suffix goes through
  \<^verbatim>\<open>int(...)\<close> and may be text or a number.
\<close>

record options =
  challenge :: "string option"
  addrandomchallenge :: "pyval option"
  hashchallenge :: "string option"

definition no_options :: options where
  "no_options = \<lparr>challenge = None, addrandomchallenge = None, hashchallenge = None\<rparr>"

subsection \<open>Collaborators\<close>

text \<open>
  The functions and classes imported by the module whose code lies outside it. \<open>'s\<close>
  is the type of a parsed suite (\<^verbatim>\<open>OCRASuite\<close>), \<open>'o\<close> of an \<^verbatim>\<open>OCRA\<close> object.
  \<^item> \<open>get_user_from_param\<close>: the user named by the parameters; \<open>None\<close> stands for
    the empty user object, which is falsy.
  \<^item> \<open>add_user\<close>, \<open>TokenClass_update\<close>: methods of the base class.
  \<^item> \<open>check_token_locked\<close>: the decorator on \<^verbatim>\<open>check_otp\<close>, a gate on the token
    that either raises or lets the call through.
  \<^item> \<open>OCRASuite\<close>, \<open>suite_create_challenge\<close>, \<open>OCRA\<close>, \<open>check_response\<close>:
    the suite engine.
  \<^item> \<open>int_of_str\<close>: \<^verbatim>\<open>int(s)\<close> on text, \<open>None\<close> where it raises ValueError.
  \<^item> \<open>create_img\<close>, \<open>to_bytes\<close>, \<open>sha1\<close>, \<open>sha256\<close>, \<open>sha512\<close>: the image
    renderer, the encoder and the digests of hashlib.
  \<^item> \<open>create_transaction_id\<close>: the allocator of the challenge table.
  \<^item> \<open>TokenClass_get_import_csv\<close>: the importer of the base class.
\<close>

record ('s, 'o) env =
  get_user_from_param :: "(string \<rightharpoonup> string) \<Rightarrow> bool \<Rightarrow> error + user option"
  add_user :: "user \<Rightarrow> token \<Rightarrow> token"
  TokenClass_update :: "(string \<rightharpoonup> string) \<Rightarrow> token \<Rightarrow> (error + unit) \<times> token"
  check_token_locked :: "token \<Rightarrow> error option"
  OCRASuite :: "string \<Rightarrow> error + 's"
  suite_create_challenge :: "'s \<Rightarrow> (nat \<Rightarrow> nat) \<Rightarrow> nat \<Rightarrow> string \<times> nat"
  OCRA :: "string option \<Rightarrow> string \<Rightarrow> error + 'o"
  check_response :: "'o \<Rightarrow> string \<Rightarrow> string \<Rightarrow> error + int"
  int_of_str :: "string \<Rightarrow> int option"
  create_img :: "string \<Rightarrow> string"
  to_bytes :: "string \<Rightarrow> string"
  sha1 :: "string \<Rightarrow> string"
  sha256 :: "string \<Rightarrow> string"
  sha512 :: "string \<Rightarrow> string"
  create_transaction_id :: "(nat \<Rightarrow> nat) \<Rightarrow> nat \<Rightarrow> string \<times> nat"
  TokenClass_get_import_csv :: "string list \<Rightarrow> error + (string \<rightharpoonup> pyval)"

text \<open>\<^verbatim>\<open>int(x)\<close>: the identity on integers, the parser on text.\<close>

definition py_int :: "('s, 'o) env \<Rightarrow> pyval \<Rightarrow> error + int" where
  "py_int env v =
     (case v of
        VInt i \<Rightarrow> Inr i
      | VStr s \<Rightarrow> (case int_of_str env s of None \<Rightarrow> Inl ValueError | Some i \<Rightarrow> Inr i))"

text \<open>
  Modelled from the spec: \<^verbatim>\<open>getParam\<close> of \<^verbatim>\<open>privacyidea.api.lib.utils\<close>, which is
  not among the sources. The parameter of the given key, or the default when the key is
  absent.
\<close>

definition getParam :: "(string \<rightharpoonup> string) \<Rightarrow> string \<Rightarrow> string \<Rightarrow> string" where
  "getParam param key dflt = (case param key of Some v \<Rightarrow> v | None \<Rightarrow> dflt)"

text \<open>
  Modelled from the spec: \<^verbatim>\<open>get_from_config\<close> of \<^verbatim>\<open>privacyidea.lib.config\<close>, which
  is not among the sources. The configured value of the key, or the default when the key
  is unset.
\<close>

definition get_from_config :: "(string \<rightharpoonup> pyval) \<Rightarrow> string \<Rightarrow> pyval \<Rightarrow> pyval" where
  "get_from_config cfg key dflt = (case cfg key of Some v \<Rightarrow> v | None \<Rightarrow> dflt)"

text \<open>
  Modelled from the spec: the accessors of the base class \<^verbatim>\<open>TokenClass\<close>, which is
  not among the sources. The suite descriptor is stored as token metadata and read back
  from it; the type and the realms are columns of the token.
\<close>

definition add_tokeninfo :: "string \<Rightarrow> string \<Rightarrow> token \<Rightarrow> token" where
  "add_tokeninfo key v self = self\<lparr>tokeninfo := (tokeninfo self)(key \<mapsto> v)\<rparr>"

definition get_tokeninfo :: "string \<Rightarrow> token \<Rightarrow> string option" where
  "get_tokeninfo key self = tokeninfo self key"

definition set_type :: "string \<Rightarrow> token \<Rightarrow> token" where
  "set_type t self = self\<lparr>tokentype := t\<rparr>"

definition get_tokentype :: "token \<Rightarrow> string" where
  "get_tokentype self = tokentype self"

definition set_realms :: "string list \<Rightarrow> token \<Rightarrow> token" where
  "set_realms rs self = self\<lparr>realms := rs\<rparr>"

definition get_otpkey :: "token \<Rightarrow> string" where
  "get_otpkey self = otpkey self"

text \<open>
  Modelled from the spec: \<^verbatim>\<open>hexlify_and_unicode\<close> of \<^verbatim>\<open>privacyidea.lib.utils\<close>,
  which is not among the sources. The lowercase hexadecimal encoding of a byte string,
  two digits for each byte.
\<close>

definition hex_digit :: "nat \<Rightarrow> char" where
  "hex_digit n = ''0123456789abcdef'' ! (n mod 16)"

definition hexlify_and_unicode :: "string \<Rightarrow> string" where
  "hexlify_and_unicode bs =
     concat (map (\<lambda>c. [hex_digit (of_char c div 16), hex_digit (of_char c mod 16)]) bs)"

text \<open>
  Modelled from the spec: \<^verbatim>\<open>get_alphanum_str\<close> of \<^verbatim>\<open>privacyidea.lib.crypto\<close>, which
  is not among the sources. A random alphanumeric string of the requested length: each
  character is picked from the letters and digits by one raw draw. It returns the string
  and the position of the next unused draw; a length below zero gives the empty string.
\<close>

definition alphanum_chars :: string where
  "alphanum_chars = ''abcdefghijklmnopqrstuvwxyzABCDEFGHIJKLMNOPQRSTUVWXYZ0123456789''"

definition get_alphanum_str :: "int \<Rightarrow> (nat \<Rightarrow> nat) \<Rightarrow> nat \<Rightarrow> string \<times> nat" where
  "get_alphanum_str n ent cur =
     (map (\<lambda>i. alphanum_chars ! (ent i mod 62)) [cur ..< cur + nat n], cur + nat n)"

text \<open>
  Modelled from the spec: the constructor and \<^verbatim>\<open>save\<close> of \<^verbatim>\<open>Challenge\<close> in
  \<^verbatim>\<open>privacyidea.models\<close>, which is not among the sources. The store allocates the
  transaction id when none is supplied and keeps a supplied one; saving appends the row
  to the table.
\<close>

definition Challenge ::
  "('s, 'o) env \<Rightarrow> string \<Rightarrow> string option \<Rightarrow> string \<Rightarrow> string option \<Rightarrow> string option \<Rightarrow> int
     \<Rightarrow> world \<Rightarrow> challenge_row \<times> world" where
  "Challenge env serial_no transaction_id chal data session validitytime w =
     (case transaction_id of
        Some t \<Rightarrow>
          (\<lparr>ch_serial = serial_no, ch_transaction_id = t, ch_challenge = chal,
            ch_data = data, ch_session = session, ch_validitytime = validitytime\<rparr>, w)
      | None \<Rightarrow>
          (let (t, cur) = create_transaction_id env (entropy w) (cursor w)
           in (\<lparr>ch_serial = serial_no, ch_transaction_id = t, ch_challenge = chal,
                 ch_data = data, ch_session = session, ch_validitytime = validitytime\<rparr>,
               w\<lparr>cursor := cur\<rparr>)))"

definition save :: "challenge_row \<Rightarrow> world \<Rightarrow> world" where
  "save row w = w\<lparr>challenges := challenges w @ [row]\<rparr>"

subsection \<open>Module constants and the constructor\<close>

definition OCRA_DEFAULT_SUITE :: string where
  "OCRA_DEFAULT_SUITE = ''OCRA-1:HOTP-SHA1-8:QH40''"

definition optional :: bool where
  "optional = True"

definition required :: bool where
  "required = False"

definition get_class_type :: string where
  "get_class_type = ''ocra''"

definition get_class_prefix :: string where
  "get_class_prefix = ''OCRA''"

text \<open>\<^verbatim>\<open>__init__\<close>: wraps the database row, sets the type and clears \<^verbatim>\<open>hKeyRequired\<close>.\<close>

definition init :: "token \<Rightarrow> token" where
  "init db_token = (set_type ''ocra'' db_token)\<lparr>hKeyRequired := False\<rparr>"

subsection \<open>update\<close>

text \<open>
  \<^verbatim>\<open>update(self, param)\<close>. The statements in the order of the source: the user
  lookup, the binding of the user, the construction of the suite (only for its
  validation), the write of the descriptor, the update of the base class, the realms.
\<close>

definition update ::
  "('s, 'o) env \<Rightarrow> (string \<rightharpoonup> string) \<Rightarrow> token \<Rightarrow> (error + unit) \<times> token" where
  "update env param self =
     (case get_user_from_param env param optional of
        Inl e \<Rightarrow> (Inl e, self)
      | Inr user_object \<Rightarrow>
          (let self1 = (case user_object of Some u \<Rightarrow> add_user env u self | None \<Rightarrow> self);
               ocrasuite = getParam param ''ocrasuite'' OCRA_DEFAULT_SUITE
           in case OCRASuite env ocrasuite of
                Inl e \<Rightarrow> (Inl e, self1)
              | Inr _ \<Rightarrow>
                  (case TokenClass_update env param
                          (add_tokeninfo ''ocrasuite'' ocrasuite self1) of
                     (Inl e, self2) \<Rightarrow> (Inl e, self2)
                   | (Inr _, self2) \<Rightarrow>
                       (Inr (),
                        case user_object of
                          Some u \<Rightarrow> set_realms [realm u] self2
                        | None \<Rightarrow> self2))))"

subsection \<open>create\_challenge\<close>

text \<open>
  Lines 199 to 203: the validity time. The global default is read first (120 when
  unset) and converted; the key of the token type is read with that value as its
  default and converted.
\<close>

definition resolve_validity ::
  "('s, 'o) env \<Rightarrow> (string \<rightharpoonup> pyval) \<Rightarrow> token \<Rightarrow> error + int" where
  "resolve_validity env cfg self =
     (case py_int env (get_from_config cfg ''DefaultChallengeValidityTime'' (VInt 120)) of
        Inl e \<Rightarrow> Inl e
      | Inr validity \<Rightarrow>
          (let tokentype = py_lower (get_tokentype self);
               lookup_for = py_capitalize tokentype @ ''ChallengeValidityTime''
           in py_int env (get_from_config cfg lookup_for (VInt validity))))"

text \<open>
  Lines 208 to 228: the challenge and the attributes. Without a challenge in the
  options (absent or empty) the suite generates one. Otherwise the random suffix is
  appended when asked for, the cleartext and its image are recorded in the attributes,
  and the hashing option selects the value to store.
\<close>

definition determine_challenge ::
  "('s, 'o) env \<Rightarrow> string \<Rightarrow> options \<Rightarrow> world
     \<Rightarrow> (error + string \<times> (string \<rightharpoonup> string)) \<times> world" where
  "determine_challenge env ocrasuite opts w =
     (if (case challenge opts of None \<Rightarrow> True | Some c \<Rightarrow> c = [])
      then
        (case OCRASuite env ocrasuite of
           Inl e \<Rightarrow> (Inl e, w)
         | Inr os \<Rightarrow>
             (let (c, cur) = suite_create_challenge env os (entropy w) (cursor w)
              in (Inr (c, Map.empty), w\<lparr>cursor := cur\<rparr>)))
      else
        (let c0 = the (challenge opts)
         in case (case addrandomchallenge opts of
                    None \<Rightarrow> (Inr c0, w)
                  | Some v \<Rightarrow>
                      if truthy v
                      then (case py_int env v of
                              Inl e \<Rightarrow> (Inl e, w)
                            | Inr n \<Rightarrow>
                                (let (r, cur) = get_alphanum_str n (entropy w) (cursor w)
                                 in (Inr (c0 @ r), w\<lparr>cursor := cur\<rparr>)))
                      else (Inr c0, w)) of
              (Inl e, w1) \<Rightarrow> (Inl e, w1)
            | (Inr c1, w1) \<Rightarrow>
                (let attributes =
                       [''original_challenge'' \<mapsto> c1, ''qrcode'' \<mapsto> create_img env c1];
                     h = (case hashchallenge opts of Some h \<Rightarrow> h | None \<Rightarrow> [])
                 in (Inr (if py_lower h = ''sha256''
                          then hexlify_and_unicode (sha256 env (to_bytes env c1))
                          else if py_lower h = ''sha512''
                          then hexlify_and_unicode (sha512 env (to_bytes env c1))
                          else if h \<noteq> []
                          then hexlify_and_unicode (sha1 env (to_bytes env c1))
                          else c1,
                          attributes),
                     w1))))"

text \<open>
  Line 206: \<^verbatim>\<open>self.get_tokeninfo("ocrasuite") or OCRA_DEFAULT_SUITE\<close>. A missing and
  an empty descriptor both give the default.
\<close>

definition ocrasuite_or_default :: "token \<Rightarrow> string" where
  "ocrasuite_or_default self =
     (case get_tokeninfo ''ocrasuite'' self of
        Some s \<Rightarrow> if s \<noteq> [] then s else OCRA_DEFAULT_SUITE
      | None \<Rightarrow> OCRA_DEFAULT_SUITE)"

text \<open>
  \<^verbatim>\<open>create_challenge(self, transactionid=None, options=None)\<close>. The row is built
  with \<^verbatim>\<open>transaction_id=None\<close>, as line 233 writes it; the returned id is the one of
  the saved row.
\<close>

definition create_challenge ::
  "('s, 'o) env \<Rightarrow> token \<Rightarrow> string option \<Rightarrow> options option \<Rightarrow> world
     \<Rightarrow> (error + bool \<times> string \<times> string \<times> (string \<rightharpoonup> (string \<rightharpoonup> string))) \<times> world" where
  "create_challenge env self transactionid options w =
     (let opts = (case options of Some d \<Rightarrow> d | None \<Rightarrow> no_options);
          message = ''Please answer the challenge''
      in case resolve_validity env (config w) self of
           Inl e \<Rightarrow> (Inl e, w)
         | Inr validity \<Rightarrow>
             (let ocrasuite = ocrasuite_or_default self
              in case determine_challenge env ocrasuite opts w of
                   (Inl e, w1) \<Rightarrow> (Inl e, w1)
                 | (Inr (c, attributes), w1) \<Rightarrow>
                     (let (db_challenge, w2) =
                            Challenge env (serial self) None c None None validity w1;
                          w3 = save db_challenge w2;
                          attributes' = attributes(''challenge'' \<mapsto> c);
                          reply_dict = [''attributes'' \<mapsto> attributes']
                      in (Inr (True, message, ch_transaction_id db_challenge, reply_dict),
                          w3))))"

subsection \<open>verify\_response and check\_otp\<close>

definition verify_response ::
  "('s, 'o) env \<Rightarrow> token \<Rightarrow> string \<Rightarrow> string \<Rightarrow> error + int" where
  "verify_response env self passw chal =
     (let ocrasuite = get_tokeninfo ''ocrasuite'' self;
          security_object = get_otpkey self
      in case OCRA env ocrasuite security_object of
           Inl e \<Rightarrow> Inl e
         | Inr ocra_object \<Rightarrow> check_response env ocra_object passw chal)"

text \<open>
  \<^verbatim>\<open>check_otp(self, otpval, counter=None, window=None, options=None)\<close> under its
  decorator: the gate first, then the subscript \<^verbatim>\<open>options['challenge']\<close>, which
  raises TypeError on \<^verbatim>\<open>None\<close> and KeyError on a dictionary without the key, then
  the call of \<^verbatim>\<open>verify_response\<close>.
\<close>

definition check_otp ::
  "('s, 'o) env \<Rightarrow> token \<Rightarrow> string \<Rightarrow> int option \<Rightarrow> int option \<Rightarrow> options option
     \<Rightarrow> error + int" where
  "check_otp env self otpval counter window options =
     (case check_token_locked env self of
        Some e \<Rightarrow> Inl e
      | None \<Rightarrow>
          (case options of
             None \<Rightarrow> Inl TypeError
           | Some opts \<Rightarrow>
               (case challenge opts of
                  None \<Rightarrow> Inl (KeyError ''challenge'')
                | Some c \<Rightarrow> verify_response env self otpval c)))"

subsection \<open>get\_import\_csv\<close>

definition get_import_csv ::
  "('s, 'o) env \<Rightarrow> string list \<Rightarrow> error + (string \<rightharpoonup> pyval)" where
  "get_import_csv env l =
     (case TokenClass_get_import_csv env l of
        Inl e \<Rightarrow> Inl e
      | Inr params \<Rightarrow>
          (let params1 = (if ''otplen'' \<in> dom params then params(''otplen'' := None)
                          else params);
               params2 = (if length l \<ge> 4
                          then params1(''ocrasuite'' \<mapsto> VStr (py_strip (l ! 3)))
                          else params1)
           in Inr params2))"

subsection \<open>A concrete environment\<close>

text \<open>
  One implementation of the collaborators, small enough to evaluate, on which the
  theorems below are instantiated. Its suite grammar accepts a descriptor that starts
  with \<^verbatim>\<open>OCRA-1:\<close> and has three fields separated by colons; its digests have the
  output sizes of SHA-1, SHA-256 and SHA-512 (20, 32 and 64 bytes); its gate refuses a
  locked token; its base importer sets \<^verbatim>\<open>otplen\<close>.
\<close>

definition example_suite_ok :: "string \<Rightarrow> bool" where
  "example_suite_ok s =
     (take 7 s = ''OCRA-1:'' \<and> length (filter (\<lambda>c. c = CHR '':'') s) = 2)"

definition example_digest :: "nat \<Rightarrow> string \<Rightarrow> string" where
  "example_digest n bs = replicate n (char_of (length bs + n))"

definition example_int_of_str :: "string \<Rightarrow> int option" where
  "example_int_of_str s =
     (if s \<noteq> [] \<and> list_all (\<lambda>c. 48 \<le> (of_char c :: nat) \<and> (of_char c :: nat) \<le> 57) s
      then Some (foldl (\<lambda>a c. 10 * a + (of_char c - 48)) 0 s)
      else None)"

definition example_env :: "(string, string \<times> string) env" where
  "example_env =
     \<lparr>get_user_from_param =
        (\<lambda>param opt.
           case param ''user'' of
             None \<Rightarrow> if opt then Inr None else Inl (Raised ''ParameterError'')
           | Some l \<Rightarrow> Inr (Some \<lparr>login = l, realm = getParam param ''realm'' []\<rparr>)),
      add_user = (\<lambda>u t. t\<lparr>owner := Some u\<rparr>),
      TokenClass_update = (\<lambda>param t. (Inr (), t)),
      check_token_locked =
        (\<lambda>t. if locked t then Some (Raised ''TokenAdminError'') else None),
      OCRASuite = (\<lambda>s. if example_suite_ok s then Inr s else Inl (Raised ''Exception'')),
      suite_create_challenge =
        (\<lambda>s ent cur. (map (\<lambda>i. hex_digit (ent i)) [cur ..< cur + 8], cur + 8)),
      OCRA =
        (\<lambda>s k. case s of
                  None \<Rightarrow> Inl (Raised ''Exception'')
                | Some d \<Rightarrow> if example_suite_ok d then Inr (d, k)
                            else Inl (Raised ''Exception'')),
      check_response = (\<lambda>(d, k) passw q. Inr (if passw = k @ q then 1 else - 1)),
      int_of_str = example_int_of_str,
      create_img = (\<lambda>s. ''data:image/png;base64,'' @ s),
      to_bytes = (\<lambda>s. s),
      sha1 = example_digest 20,
      sha256 = example_digest 32,
      sha512 = example_digest 64,
      create_transaction_id =
        (\<lambda>ent cur. (map (\<lambda>i. hex_digit (ent i mod 10)) [cur ..< cur + 4], cur + 4)),
      TokenClass_get_import_csv = (\<lambda>l. Inr [''otplen'' \<mapsto> VInt 6])\<rparr>"

definition example_db_token :: token where
  "example_db_token =
     \<lparr>serial = ''OCRA0001'', tokentype = [], hKeyRequired = True, owner = None,
      tokeninfo = [''ocrasuite'' \<mapsto> ''OCRA-1:HOTP-SHA1-8:QH40''], realms = [],
      otpkey = ''secret'', locked = False\<rparr>"

definition example_token :: token where
  "example_token = init example_db_token"

definition example_world :: world where
  "example_world =
     \<lparr>config = Map.empty, challenges = [], entropy = (\<lambda>i. 7 * i + 3), cursor = 0\<rparr>"

text \<open>A configuration that sets both validity keys, the one of the token type as text.\<close>

definition example_config :: "string \<rightharpoonup> pyval" where
  "example_config =
     [''OcraChallengeValidityTime'' \<mapsto> VStr ''300'', ''DefaultChallengeValidityTime'' \<mapsto> VInt 60]"

text \<open>
  A configuration whose global validity is not a number, while the one of the token type
  is.
\<close>

definition broken_config :: "string \<rightharpoonup> pyval" where
  "broken_config =
     [''OcraChallengeValidityTime'' \<mapsto> VStr ''300'',
      ''DefaultChallengeValidityTime'' \<mapsto> VStr ''abc'']"

subsection \<open>The specification's readings\<close>

text \<open>
  The validity window as the specification words it, an ordered lookup: the key of the
  token type when set, otherwise the global key when set, otherwise 120 seconds.
\<close>

definition validity_ordered_lookup :: "(string \<rightharpoonup> pyval) \<Rightarrow> pyval" where
  "validity_ordered_lookup cfg =
     (case cfg ''OcraChallengeValidityTime'' of
        Some v \<Rightarrow> v
      | None \<Rightarrow>
          (case cfg ''DefaultChallengeValidityTime'' of
             Some v \<Rightarrow> v
           | None \<Rightarrow> VInt 120))"

text \<open>
  The value to persist for a cleartext as the specification words it: the cleartext
  as it is when no hashing option is set (absent or empty), otherwise the hexadecimal
  digest, SHA-256 or SHA-512 when the option names it (in any letter case), SHA-1 for
  every other value.
\<close>

definition persisted_value :: "('s, 'o) env \<Rightarrow> string option \<Rightarrow> string \<Rightarrow> string" where
  "persisted_value env hash_option clear =
     (case hash_option of
        None \<Rightarrow> clear
      | Some h \<Rightarrow>
          if h = [] then clear
          else if py_lower h = ''sha256''
          then hexlify_and_unicode (sha256 env (to_bytes env clear))
          else if py_lower h = ''sha512''
          then hexlify_and_unicode (sha512 env (to_bytes env clear))
          else hexlify_and_unicode (sha1 env (to_bytes env clear)))"

subsection \<open>Observers of an outcome\<close>

text \<open>
  What a caller reads off the outcome of \<^verbatim>\<open>create_challenge\<close>: the transaction
  id of the returned tuple and an entry of its attributes.
\<close>

definition returned_transaction_id ::
  "error + bool \<times> string \<times> string \<times> (string \<rightharpoonup> (string \<rightharpoonup> string)) \<Rightarrow> string option" where
  "returned_transaction_id r =
     (case r of Inl e \<Rightarrow> None | Inr (ok, msg, t, reply) \<Rightarrow> Some t)"

definition returned_attribute ::
  "error + bool \<times> string \<times> string \<times> (string \<rightharpoonup> (string \<rightharpoonup> string)) \<Rightarrow> string
     \<Rightarrow> string option" where
  "returned_attribute r key =
     (case r of
        Inl e \<Rightarrow> None
      | Inr (ok, msg, t, reply) \<Rightarrow>
          (case reply ''attributes'' of None \<Rightarrow> None | Some attrs \<Rightarrow> attrs key))"

text \<open>The exception an outcome carries, if any.\<close>

definition raised :: "error + 'a \<Rightarrow> error option" where
  "raised r = (case r of Inl e \<Rightarrow> Some e | Inr v \<Rightarrow> None)"

section \<open>Properties\<close>

lemmas example_defs = example_env_def example_token_def example_db_token_def
  example_world_def init_def set_type_def example_suite_ok_def example_digest_def

subsection \<open>update\<close>

text \<open>
  C1, as stated, fails. The claim: when the suite descriptor of the parameters is
  rejected, \<^verbatim>\<open>update\<close> fails with the token unchanged, no user bound. The code
  binds the user (lines 140 to 142) before it constructs the suite (line 145). Here the
  parameters name the user alice and the descriptor \<^verbatim>\<open>bogus\<close>: the construction
  raises, and the token, unbound before, is left bound to alice.
\<close>

theorem update_binds_user_before_validation:
  "OCRASuite example_env
       (getParam [''user'' \<mapsto> ''alice'', ''realm'' \<mapsto> ''r1'', ''ocrasuite'' \<mapsto> ''bogus'']
          ''ocrasuite'' OCRA_DEFAULT_SUITE)
     = Inl (Raised ''Exception'')
   \<and> fst (update example_env
            [''user'' \<mapsto> ''alice'', ''realm'' \<mapsto> ''r1'', ''ocrasuite'' \<mapsto> ''bogus'']
            example_token)
     = Inl (Raised ''Exception'')
   \<and> owner example_token = None
   \<and> owner (snd (update example_env
            [''user'' \<mapsto> ''alice'', ''realm'' \<mapsto> ''r1'', ''ocrasuite'' \<mapsto> ''bogus'']
            example_token))
     = Some \<lparr>login = ''alice'', realm = ''r1''\<rparr>"
  by (simp add: update_def example_defs getParam_def optional_def)

text \<open>
  C1, amended. When the user lookup returns and the suite descriptor of the parameters
  (the default when they give none) is rejected, \<^verbatim>\<open>update\<close> fails with the error
  of the construction, before the descriptor is written, before the update of the base
  class and before the realms are set: the token is left as the binding of the user left
  it when the parameters name a user, and unchanged when they name none.
\<close>

theorem update_rejected_suite:
  assumes "get_user_from_param env param optional = Inr user_object"
    and "OCRASuite env (getParam param ''ocrasuite'' OCRA_DEFAULT_SUITE) = Inl e"
  shows "update env param self
           = (Inl e, case user_object of Some u \<Rightarrow> add_user env u self | None \<Rightarrow> self)
       \<and> (user_object = None \<longrightarrow> snd (update env param self) = self)"
  using assms by (simp add: update_def)

text \<open>
  C1, witness: parameters that name no user and give the descriptor \<^verbatim>\<open>bogus\<close>
  leave the token as it was.
\<close>

theorem update_rejected_suite_witness:
  "update example_env [''ocrasuite'' \<mapsto> ''bogus''] example_token
     = (Inl (Raised ''Exception''), example_token)"
proof -
  have lookup: "get_user_from_param example_env [''ocrasuite'' \<mapsto> ''bogus''] optional = Inr None"
    by (simp add: example_env_def optional_def)
  have rejected:
    "OCRASuite example_env (getParam [''ocrasuite'' \<mapsto> ''bogus''] ''ocrasuite'' OCRA_DEFAULT_SUITE)
       = Inl (Raised ''Exception'')"
    by (simp add: example_env_def example_suite_ok_def getParam_def)
  from update_rejected_suite [OF lookup rejected, of example_token]
  show ?thesis
    by simp
qed

subsection \<open>check\_otp\<close>

text \<open>
  C5, as stated, fails. The claim: with a challenge in the options, \<^verbatim>\<open>check_otp\<close>
  returns exactly what \<^verbatim>\<open>verify_response\<close> returns. The method runs under the
  decorator \<^verbatim>\<open>check_token_locked\<close>: on a locked token the gate raises, while
  \<^verbatim>\<open>verify_response\<close>, which is not decorated, accepts the response.
\<close>

theorem check_otp_locked_token:
  "check_otp example_env (example_token\<lparr>locked := True\<rparr>) ''secret12345678'' None None
       (Some \<lparr>challenge = Some ''12345678'', addrandomchallenge = None, hashchallenge = None\<rparr>)
     = Inl (Raised ''TokenAdminError'')
   \<and> verify_response example_env (example_token\<lparr>locked := True\<rparr>) ''secret12345678''
       ''12345678''
     = Inr 1"
  by (simp add: check_otp_def verify_response_def example_defs get_tokeninfo_def get_otpkey_def)

text \<open>
  C5, amended. For every password and every options dictionary with a challenge:
  when the gate of the decorator lets the call through, \<^verbatim>\<open>check_otp\<close> returns
  exactly \<^verbatim>\<open>verify_response(password, options["challenge"])\<close>; when the gate
  raises, \<^verbatim>\<open>check_otp\<close> raises the error of the gate; and in every case the counter
  and the window have no effect on the result.
\<close>

theorem check_otp_ignores_counter_window:
  assumes "challenge opts = Some c"
  shows "(check_token_locked env self = None \<longrightarrow>
            check_otp env self otpval counter window (Some opts)
              = verify_response env self otpval c)
       \<and> (\<forall>e. check_token_locked env self = Some e \<longrightarrow>
            check_otp env self otpval counter window (Some opts) = Inl e)
       \<and> check_otp env self otpval counter window (Some opts)
           = check_otp env self otpval counter' window' (Some opts)"
  using assms by (simp add: check_otp_def)

text \<open>
  C5, witness: an unlocked token and the right response, once with a counter and a
  window, once without; and the same call on a locked token.
\<close>

theorem check_otp_ignores_counter_window_witness:
  "check_otp example_env example_token ''secret12345678'' (Some 5) (Some 10)
       (Some \<lparr>challenge = Some ''12345678'', addrandomchallenge = None, hashchallenge = None\<rparr>)
     = Inr 1
   \<and> check_otp example_env example_token ''secret12345678'' None None
       (Some \<lparr>challenge = Some ''12345678'', addrandomchallenge = None, hashchallenge = None\<rparr>)
     = Inr 1
   \<and> check_otp example_env (example_token\<lparr>locked := True\<rparr>) ''secret12345678'' (Some 5)
       (Some 10)
       (Some \<lparr>challenge = Some ''12345678'', addrandomchallenge = None, hashchallenge = None\<rparr>)
     = Inl (Raised ''TokenAdminError'')"
proof -
  let ?opts = "\<lparr>challenge = Some ''12345678'', addrandomchallenge = None, hashchallenge = None\<rparr>"
  have key: "challenge ?opts = Some ''12345678''"
    by simp
  have unlocked: "check_token_locked example_env example_token = None"
    by (simp add: example_defs)
  have is_locked:
    "check_token_locked example_env (example_token\<lparr>locked := True\<rparr>)
       = Some (Raised ''TokenAdminError'')"
    by (simp add: example_defs)
  have response:
    "verify_response example_env example_token ''secret12345678'' ''12345678'' = Inr 1"
    by (simp add: verify_response_def example_defs get_tokeninfo_def get_otpkey_def)
  from check_otp_ignores_counter_window [OF key, of example_env example_token
      "''secret12345678''" "Some 5" "Some 10" None None] unlocked response
  have open_gate:
    "check_otp example_env example_token ''secret12345678'' (Some 5) (Some 10) (Some ?opts)
       = Inr 1"
    "check_otp example_env example_token ''secret12345678'' None None (Some ?opts) = Inr 1"
    by metis+
  from check_otp_ignores_counter_window [OF key, of example_env "example_token\<lparr>locked := True\<rparr>"
      "''secret12345678''" "Some 5" "Some 10"] is_locked
  have "check_otp example_env (example_token\<lparr>locked := True\<rparr>) ''secret12345678'' (Some 5)
          (Some 10) (Some ?opts) = Inl (Raised ''TokenAdminError'')"
    by blast
  with open_gate show ?thesis
    by simp
qed

text \<open>
  C9, as stated, fails. The claim: without a challenge in the options
  \<^verbatim>\<open>check_otp\<close> fails with a missing-key error. On a locked token the gate of the
  decorator raises first, and the error is the gate's.
\<close>

theorem check_otp_missing_challenge_locked_token:
  "check_otp example_env (example_token\<lparr>locked := True\<rparr>) ''secret12345678'' None None
       (Some \<lparr>challenge = None, addrandomchallenge = None, hashchallenge = None\<rparr>)
     = Inl (Raised ''TokenAdminError'')
   \<and> Raised ''TokenAdminError'' \<noteq> KeyError ''challenge''"
  by (simp add: check_otp_def example_defs)

text \<open>
  C9, amended. For every options dictionary without the key \<^verbatim>\<open>challenge\<close>,
  \<^verbatim>\<open>check_otp\<close> fails and returns no value, so never \<open>-1\<close>: with the
  missing-key error when the gate of the decorator lets the call through, with the error
  of the gate when the gate raises. No verification is attempted: the outcome is the
  same whatever the suite engine would answer.
\<close>

theorem check_otp_missing_challenge:
  assumes "challenge opts = None"
  shows "(check_token_locked env self = None \<longrightarrow>
            check_otp env self otpval counter window (Some opts) = Inl (KeyError ''challenge''))
       \<and> (\<forall>e. check_token_locked env self = Some e \<longrightarrow>
            check_otp env self otpval counter window (Some opts) = Inl e)
       \<and> (\<exists>e. check_otp env self otpval counter window (Some opts) = Inl e)
       \<and> check_otp (env\<lparr>OCRA := ocra', check_response := check'\<rparr>) self otpval counter window
            (Some opts)
           = check_otp env self otpval counter window (Some opts)"
  using assms by (simp add: check_otp_def split: option.splits)

text \<open>
  C9, witness: options that carry another key only, on an unlocked and on a locked
  token.
\<close>

theorem check_otp_missing_challenge_witness:
  "check_otp example_env example_token ''secret12345678'' None None
       (Some \<lparr>challenge = None, addrandomchallenge = Some (VInt 4), hashchallenge = None\<rparr>)
     = Inl (KeyError ''challenge'')
   \<and> check_otp example_env (example_token\<lparr>locked := True\<rparr>) ''secret12345678'' None None
       (Some \<lparr>challenge = None, addrandomchallenge = Some (VInt 4), hashchallenge = None\<rparr>)
     = Inl (Raised ''TokenAdminError'')"
proof -
  let ?opts = "\<lparr>challenge = None, addrandomchallenge = Some (VInt 4), hashchallenge = None\<rparr>"
  have key: "challenge ?opts = None"
    by simp
  have unlocked: "check_token_locked example_env example_token = None"
    by (simp add: example_defs)
  have is_locked:
    "check_token_locked example_env (example_token\<lparr>locked := True\<rparr>)
       = Some (Raised ''TokenAdminError'')"
    by (simp add: example_defs)
  from check_otp_missing_challenge [OF key, of example_env example_token "''secret12345678''" None None] unlocked
  have "check_otp example_env example_token ''secret12345678'' None None (Some ?opts)
          = Inl (KeyError ''challenge'')"
    by blast
  moreover
  from check_otp_missing_challenge [OF key, of example_env "example_token\<lparr>locked := True\<rparr>"
      "''secret12345678''" None None] is_locked
  have "check_otp example_env (example_token\<lparr>locked := True\<rparr>) ''secret12345678'' None None
          (Some ?opts) = Inl (Raised ''TokenAdminError'')"
    by blast
  ultimately show ?thesis
    by simp
qed

subsection \<open>get\_import\_csv\<close>

text \<open>
  What \<open>py_strip\<close> removes: white space at both ends and nothing else. The text
  is the stripped text between a prefix and a suffix of white space, and the stripped
  text, unless empty, starts and ends with a character that is not white space.
\<close>

lemma last_dropWhile: "dropWhile P xs \<noteq> [] \<Longrightarrow> last (dropWhile P xs) = last xs"
proof -
  assume nonempty: "dropWhile P xs \<noteq> []"
  have "xs = takeWhile P xs @ dropWhile P xs"
    by simp
  then have "last xs = last (takeWhile P xs @ dropWhile P xs)"
    by simp
  also from nonempty have "\<dots> = last (dropWhile P xs)"
    by (rule last_appendR)
  finally show ?thesis
    by simp
qed

lemma py_strip_decomposition:
  "\<exists>pre post. s = pre @ py_strip s @ post \<and> list_all is_space pre \<and> list_all is_space post"
proof -
  let ?d = "dropWhile is_space s"
  let ?pre = "takeWhile is_space s"
  let ?post = "rev (takeWhile is_space (rev ?d))"
  have "py_strip s @ ?post
          = rev (takeWhile is_space (rev ?d) @ dropWhile is_space (rev ?d))"
    by (simp only: py_strip_def rev_append)
  also have "\<dots> = ?d"
    by simp
  finally have d: "?d = py_strip s @ ?post"
    by simp
  have "s = ?pre @ ?d"
    by simp
  with d have "s = ?pre @ py_strip s @ ?post"
    by simp
  moreover have "list_all is_space ?pre"
    by (simp add: list_all_iff) (meson set_takeWhileD)
  moreover have "list_all is_space ?post"
    by (simp add: list_all_iff) (meson set_takeWhileD)
  ultimately show ?thesis
    by blast
qed

lemma py_strip_ends:
  assumes "py_strip s \<noteq> []"
  shows "\<not> is_space (hd (py_strip s)) \<and> \<not> is_space (last (py_strip s))"
proof -
  let ?d = "dropWhile is_space s"
  let ?r = "dropWhile is_space (rev ?d)"
  from assms have r: "?r \<noteq> []"
    by (simp add: py_strip_def)
  have d: "?d \<noteq> []"
  proof
    assume "?d = []"
    then have "?r = []"
      by (simp only: rev.simps dropWhile.simps)
    with r show False
      by contradiction
  qed
  have "last (py_strip s) = hd ?r"
    using r by (simp add: py_strip_def last_rev)
  moreover from r have "\<not> is_space (hd ?r)"
    by (rule hd_dropWhile)
  moreover have "hd (py_strip s) = last ?r"
    using r by (simp add: py_strip_def hd_rev)
  moreover from r have "last ?r = last (rev ?d)"
    by (rule last_dropWhile)
  moreover have "last (rev ?d) = hd ?d"
    using d by (simp add: last_rev)
  moreover from d have "\<not> is_space (hd ?d)"
    by (rule hd_dropWhile)
  ultimately show ?thesis
    by simp
qed

lemma py_strip_example: "py_strip ''OCRA-1:HOTP-SHA1-6:QN08'' = ''OCRA-1:HOTP-SHA1-6:QN08''"
  by (simp add: py_strip_def is_space_def)

lemma is_space_examples:
  "is_space (CHR '' '')" "is_space (CHR 0x09)" "is_space (CHR 0x0A)" "is_space (CHR 0x0D)"
  "\<not> is_space (CHR ''O'')" "\<not> is_space (CHR ''8'')" "\<not> is_space (CHR '':'')"
  "\<not> is_space (CHR ''-'')"
  by (simp_all add: is_space_def)

lemma py_strip_padded:
  "py_strip ([CHR '' '', CHR 0x09] @ ''OCRA-1:HOTP-SHA1-6:QN08'' @ [CHR 0x0D, CHR 0x0A])
     = ''OCRA-1:HOTP-SHA1-6:QN08''"
  by (simp add: py_strip_def is_space_def)

text \<open>
  C8. For every row of at least four columns on which the importer of the base class
  returns a map, \<^verbatim>\<open>get_import_csv\<close> returns a map whose \<^verbatim>\<open>ocrasuite\<close> entry is
  the trimmed fourth column: the column without the white space at its two ends, so
  that the entry neither starts nor ends with white space. The map has no
  \<^verbatim>\<open>otplen\<close> key, whether the base importer set one or not, and every other key is
  as the base importer left it.
\<close>

theorem get_import_csv_ocrasuite:
  assumes "4 \<le> length l" and "TokenClass_get_import_csv env l = Inr params"
  shows "case get_import_csv env l of
           Inl e \<Rightarrow> False
         | Inr p \<Rightarrow> p ''ocrasuite'' = Some (VStr (py_strip (l ! 3)))
                    \<and> ''otplen'' \<notin> dom p
                    \<and> (\<forall>k. k \<noteq> ''ocrasuite'' \<longrightarrow> k \<noteq> ''otplen'' \<longrightarrow> p k = params k)
                    \<and> (\<exists>pre suite post.
                          p ''ocrasuite'' = Some (VStr suite)
                        \<and> l ! 3 = pre @ suite @ post
                        \<and> list_all is_space pre \<and> list_all is_space post
                        \<and> (suite \<noteq> [] \<longrightarrow> \<not> is_space (hd suite) \<and> \<not> is_space (last suite)))"
proof -
  from assms have result:
    "get_import_csv env l
       = Inr ((params(''otplen'' := None))(''ocrasuite'' \<mapsto> VStr (py_strip (l ! 3))))"
    by (auto simp add: get_import_csv_def Let_def)
  from py_strip_decomposition [of "l ! 3"] obtain pre post where
    "l ! 3 = pre @ py_strip (l ! 3) @ post" "list_all is_space pre" "list_all is_space post"
    by blast
  with py_strip_ends [of "l ! 3"] have
    "\<exists>pre suite post.
        suite = py_strip (l ! 3)
      \<and> l ! 3 = pre @ suite @ post
      \<and> list_all is_space pre \<and> list_all is_space post
      \<and> (suite \<noteq> [] \<longrightarrow> \<not> is_space (hd suite) \<and> \<not> is_space (last suite))"
    by blast
  then show ?thesis
    unfolding result by auto
qed

text \<open>
  C8, witness: the row \<^verbatim>\<open>["user1", "pw", "pin", "OCRA-1:HOTP-SHA1-6:QN08"]\<close>, on
  which the base importer sets \<^verbatim>\<open>otplen\<close>, yields that descriptor and no
  \<^verbatim>\<open>otplen\<close>; so does the row whose fourth column has a blank and a tab before
  the descriptor and a carriage return and a line feed after it.
\<close>

theorem get_import_csv_ocrasuite_witness:
  "TokenClass_get_import_csv example_env
       [''user1'', ''pw'', ''pin'', ''OCRA-1:HOTP-SHA1-6:QN08'']
     = Inr [''otplen'' \<mapsto> VInt 6]
   \<and> (case get_import_csv example_env
              [''user1'', ''pw'', ''pin'', ''OCRA-1:HOTP-SHA1-6:QN08''] of
         Inl e \<Rightarrow> False
       | Inr p \<Rightarrow> p ''ocrasuite'' = Some (VStr ''OCRA-1:HOTP-SHA1-6:QN08'')
                  \<and> p ''otplen'' = None)
   \<and> (case get_import_csv example_env
              [''user1'', ''pw'', ''pin'',
               [CHR '' '', CHR 0x09] @ ''OCRA-1:HOTP-SHA1-6:QN08'' @ [CHR 0x0D, CHR 0x0A]] of
         Inl e \<Rightarrow> False
       | Inr p \<Rightarrow> p ''ocrasuite'' = Some (VStr ''OCRA-1:HOTP-SHA1-6:QN08'')
                  \<and> p ''otplen'' = None)"
proof -
  let ?row = "[''user1'', ''pw'', ''pin'', ''OCRA-1:HOTP-SHA1-6:QN08'']"
  let ?padded = "[''user1'', ''pw'', ''pin'',
               [CHR '' '', CHR 0x09] @ ''OCRA-1:HOTP-SHA1-6:QN08'' @ [CHR 0x0D, CHR 0x0A]]"
  have columns: "4 \<le> length ?row" "4 \<le> length ?padded"
    by simp_all
  have base: "TokenClass_get_import_csv example_env ?row = Inr [''otplen'' \<mapsto> VInt 6]"
    "TokenClass_get_import_csv example_env ?padded = Inr [''otplen'' \<mapsto> VInt 6]"
    by (simp_all add: example_env_def)
  from get_import_csv_ocrasuite [OF columns(1) base(1)]
  have plain: "case get_import_csv example_env ?row of
         Inl e \<Rightarrow> False
       | Inr p \<Rightarrow> p ''ocrasuite'' = Some (VStr ''OCRA-1:HOTP-SHA1-6:QN08'')
                  \<and> p ''otplen'' = None"
    by (auto simp add: py_strip_example split: sum.splits)
  from get_import_csv_ocrasuite [OF columns(2) base(2)]
  have "case get_import_csv example_env ?padded of
         Inl e \<Rightarrow> False
       | Inr p \<Rightarrow> p ''ocrasuite'' = Some (VStr ''OCRA-1:HOTP-SHA1-6:QN08'')
                  \<and> p ''otplen'' = None"
    using py_strip_padded by (auto split: sum.splits)
  with plain base(1) show ?thesis
    by simp
qed

subsection \<open>create\_challenge\<close>

text \<open>Facts about the string helpers, the encoder and the random suffix.\<close>

lemma py_lower_Nil: "py_lower [] = []"
  by (simp add: py_lower_def)

lemma py_lower_sha256: "py_lower ''sha256'' = ''sha256''"
  by (simp add: py_lower_def lower_char_def)

lemma ocra_key: "py_capitalize (py_lower ''ocra'') = ''Ocra''"
  by code_simp

lemma length_hexlify: "length (hexlify_and_unicode bs) = 2 * length bs"
  by (induction bs) (simp_all add: hexlify_and_unicode_def)

lemma hex_digit_lowercase: "hex_digit n \<in> set ''0123456789abcdef''"
proof -
  have "n mod 16 < length ''0123456789abcdef''"
    by simp
  then show ?thesis
    unfolding hex_digit_def by (rule nth_mem)
qed

lemma hexlify_lowercase: "set (hexlify_and_unicode bs) \<subseteq> set ''0123456789abcdef''"
  using hex_digit_lowercase by (auto simp add: hexlify_and_unicode_def)

lemma length_get_alphanum_str: "length (fst (get_alphanum_str n ent cur)) = nat n"
  by (simp add: get_alphanum_str_def)

lemma get_alphanum_str_alphanumeric:
  "set (fst (get_alphanum_str n ent cur)) \<subseteq> set alphanum_chars"
proof -
  have len: "length alphanum_chars = 62"
    by (simp add: alphanum_chars_def)
  have "alphanum_chars ! (k mod 62) \<in> set alphanum_chars" for k
    by (rule nth_mem) (simp add: len)
  then show ?thesis
    by (auto simp add: get_alphanum_str_def)
qed

text \<open>
  The block that determines the challenge touches nothing but the position in the
  source of randomness; it generates when no challenge is supplied, and otherwise stores
  what \<open>persisted_value\<close> says.
\<close>

lemma determine_challenge_frame:
  assumes "determine_challenge env suite opts w = (r, w1)"
  shows "challenges w1 = challenges w \<and> config w1 = config w \<and> entropy w1 = entropy w"
  using assms
  by (auto simp add: determine_challenge_def Let_def
      split: if_splits option.splits sum.splits prod.splits)

lemma determine_challenge_generated:
  assumes "challenge opts = None \<or> challenge opts = Some []"
  shows "determine_challenge env suite opts w =
           (case OCRASuite env suite of
              Inl e \<Rightarrow> (Inl e, w)
            | Inr os \<Rightarrow>
                (Inr (fst (suite_create_challenge env os (entropy w) (cursor w)), Map.empty),
                 w\<lparr>cursor := snd (suite_create_challenge env os (entropy w) (cursor w))\<rparr>))"
  using assms
  by (auto simp add: determine_challenge_def Let_def split: sum.splits prod.splits)

lemma hash_chain:
  "(if py_lower (case h of Some x \<Rightarrow> x | None \<Rightarrow> []) = ''sha256''
    then hexlify_and_unicode (sha256 env (to_bytes env c))
    else if py_lower (case h of Some x \<Rightarrow> x | None \<Rightarrow> []) = ''sha512''
    then hexlify_and_unicode (sha512 env (to_bytes env c))
    else if (case h of Some x \<Rightarrow> x | None \<Rightarrow> []) \<noteq> []
    then hexlify_and_unicode (sha1 env (to_bytes env c))
    else c) = persisted_value env h c"
  by (cases h) (auto simp add: persisted_value_def py_lower_def)

lemma determine_challenge_supplied:
  assumes "challenge opts = Some (a # as)"
    and "determine_challenge env suite opts w = (Inr (c, attrs), w1)"
  shows "\<exists>suffix. attrs = [''original_challenge'' \<mapsto> (a # as) @ suffix,
                            ''qrcode'' \<mapsto> create_img env ((a # as) @ suffix)]
                 \<and> c = persisted_value env (hashchallenge opts) ((a # as) @ suffix)"
proof -
  obtain c1 where
    attrs: "attrs = [''original_challenge'' \<mapsto> c1, ''qrcode'' \<mapsto> create_img env c1]"
    and c: "c = persisted_value env (hashchallenge opts) c1"
    and c1: "\<exists>suffix. c1 = (a # as) @ suffix"
    using assms
    unfolding determine_challenge_def Let_def hash_chain
    by (auto split: option.splits sum.splits prod.splits if_splits)
  from c1 obtain suffix where "c1 = (a # as) @ suffix"
    by auto
  with attrs c show ?thesis
    by blast
qed

text \<open>
  The method as a whole: its \<^verbatim>\<open>transactionid\<close> argument is never read; it returns
  exactly when the validity time resolves and a challenge is determined, and then
  persists one row.
\<close>

lemma create_challenge_ignores_transactionid:
  "create_challenge env self transactionid options w = create_challenge env self None options w"
  by (simp add: create_challenge_def)

lemma create_challenge_returns:
  assumes "resolve_validity env (config w) self = Inr validity"
    and "determine_challenge env (ocrasuite_or_default self)
           (case options of Some d \<Rightarrow> d | None \<Rightarrow> no_options) w = (Inr (c, attrs), w1)"
  shows "create_challenge env self transactionid options w =
           (Inr (True, ''Please answer the challenge'',
                 fst (create_transaction_id env (entropy w1) (cursor w1)),
                 [''attributes'' \<mapsto> attrs(''challenge'' \<mapsto> c)]),
            w1\<lparr>cursor := snd (create_transaction_id env (entropy w1) (cursor w1)),
               challenges := challenges w1 @
                 [\<lparr>ch_serial = serial self,
                   ch_transaction_id = fst (create_transaction_id env (entropy w1) (cursor w1)),
                   ch_challenge = c, ch_data = None, ch_session = None,
                   ch_validitytime = validity\<rparr>]\<rparr>)"
  using assms
  by (simp add: create_challenge_def Challenge_def save_def Let_def split: prod.splits)

lemma create_challenge_Inr:
  assumes "create_challenge env self transactionid options w = (Inr (ok, msg, t, reply), w')"
  shows "\<exists>validity c attrs w1.
           resolve_validity env (config w) self = Inr validity
         \<and> determine_challenge env (ocrasuite_or_default self)
             (case options of Some d \<Rightarrow> d | None \<Rightarrow> no_options) w = (Inr (c, attrs), w1)"
  using assms
  by (auto simp add: create_challenge_def Let_def split: sum.splits prod.splits)

text \<open>
  The validity time of a token of type \<^verbatim>\<open>ocra\<close>. When the global key is unset or
  holds a value that \<^verbatim>\<open>int\<close> accepts, the two reads of lines 200 to 203 are the
  ordered lookup; a global value that \<^verbatim>\<open>int\<close> rejects raises before the key of the
  token type is read.
\<close>

lemma resolve_validity_is_ordered_lookup:
  assumes "\<And>v. cfg ''DefaultChallengeValidityTime'' = Some v \<Longrightarrow> \<exists>i. py_int env v = Inr i"
  shows "resolve_validity env cfg (init db_token) = py_int env (validity_ordered_lookup cfg)"
proof (cases "cfg ''DefaultChallengeValidityTime''")
  case None
  then show ?thesis
    by (simp add: resolve_validity_def validity_ordered_lookup_def get_from_config_def
        init_def set_type_def get_tokentype_def ocra_key py_int_def split: option.splits)
next
  case (Some v)
  with assms obtain i where "py_int env v = Inr i"
    by blast
  with Some show ?thesis
    by (simp add: resolve_validity_def validity_ordered_lookup_def get_from_config_def
        init_def set_type_def get_tokentype_def ocra_key py_int_def split: option.splits)
qed

lemma resolve_validity_ocra:
  assumes "resolve_validity env cfg (init db_token) = Inr v"
  shows "py_int env (validity_ordered_lookup cfg) = Inr v"
  using assms
  by (auto simp add: resolve_validity_def validity_ordered_lookup_def get_from_config_def
      init_def set_type_def get_tokentype_def ocra_key py_int_def Let_def
      split: option.splits sum.splits)

lemma example_validity:
  "resolve_validity example_env (config example_world) example_token = Inr 120"
  by (simp add: resolve_validity_def example_defs get_from_config_def py_int_def
      get_tokentype_def ocra_key)

text \<open>
  C2, as stated, fails. The claim: whenever a hashing option is set the persisted value
  is the digest of the cleartext, whether the cleartext was supplied or generated, and
  SHA-1 is used for every value other than \<^verbatim>\<open>sha256\<close> and \<^verbatim>\<open>sha512\<close>. The
  hashing sits in the branch of a supplied challenge (lines 223 to 228): with the option
  \<^verbatim>\<open>sha256\<close> and no challenge, the generated challenge is persisted as it is. And
  the option is compared in lower case: \<^verbatim>\<open>SHA256\<close> selects SHA-256, not SHA-1.
\<close>

theorem suite_generated_challenge_not_hashed:
  "map ch_challenge (challenges (snd (create_challenge example_env example_token None
         (Some \<lparr>challenge = None, addrandomchallenge = None, hashchallenge = Some ''sha256''\<rparr>)
         example_world)))
     = [''3a18f6d4'']
   \<and> hexlify_and_unicode (sha256 example_env (to_bytes example_env ''3a18f6d4'')) \<noteq> ''3a18f6d4''
   \<and> map ch_challenge (challenges (snd (create_challenge example_env example_token None
         (Some \<lparr>challenge = Some ''12345678'', addrandomchallenge = None,
                hashchallenge = Some ''SHA256''\<rparr>)
         example_world)))
     = [hexlify_and_unicode (sha256 example_env (to_bytes example_env ''12345678''))]
   \<and> hexlify_and_unicode (sha256 example_env (to_bytes example_env ''12345678''))
     \<noteq> hexlify_and_unicode (sha1 example_env (to_bytes example_env ''12345678''))"
  by code_simp

text \<open>
  C2, amended. For every invocation of \<^verbatim>\<open>create_challenge\<close> that returns, one
  row is persisted and the returned \<^verbatim>\<open>challenge\<close> attribute is its value. With a
  supplied, non-empty challenge the value is that of \<open>persisted_value\<close> on the
  cleartext (the supplied challenge and its random suffix, recorded as
  \<^verbatim>\<open>original_challenge\<close>): the hexadecimal digest when a hashing option is set,
  SHA-256 or SHA-512 when the option reads so in any letter case, SHA-1 for every other
  non-empty value, and the cleartext as it is when the option is absent or empty.
  Without a supplied challenge the value is the one the suite generated, unhashed,
  whatever the hashing option.
\<close>

theorem create_challenge_persisted_value:
  assumes "create_challenge env self transactionid (Some opts) w = (Inr (ok, msg, t, reply), w')"
  shows "\<exists>row attrs.
           challenges w' = challenges w @ [row]
         \<and> reply = [''attributes'' \<mapsto> attrs]
         \<and> attrs ''challenge'' = Some (ch_challenge row)
         \<and> (\<forall>c0. challenge opts = Some c0 \<longrightarrow> c0 \<noteq> [] \<longrightarrow>
               (\<exists>suffix. attrs ''original_challenge'' = Some (c0 @ suffix)
                  \<and> ch_challenge row = persisted_value env (hashchallenge opts) (c0 @ suffix)))
         \<and> (challenge opts = None \<or> challenge opts = Some [] \<longrightarrow>
               (\<exists>os. OCRASuite env (ocrasuite_or_default self) = Inr os
                  \<and> ch_challenge row = fst (suite_create_challenge env os (entropy w) (cursor w))))"
proof -
  from create_challenge_Inr [OF assms] obtain validity c attrs w1 where
    validity: "resolve_validity env (config w) self = Inr validity"
    and determined: "determine_challenge env (ocrasuite_or_default self) opts w = (Inr (c, attrs), w1)"
    by auto
  let ?row = "\<lparr>ch_serial = serial self,
               ch_transaction_id = fst (create_transaction_id env (entropy w1) (cursor w1)),
               ch_challenge = c, ch_data = None, ch_session = None,
               ch_validitytime = validity\<rparr>"
  from create_challenge_returns
         [where options = "Some opts" and transactionid = transactionid, OF validity]
    determined assms
  have reply: "reply = [''attributes'' \<mapsto> attrs(''challenge'' \<mapsto> c)]"
    and w': "challenges w' = challenges w1 @ [?row]"
    by auto
  from determine_challenge_frame [OF determined] w'
  have rows: "challenges w' = challenges w @ [?row]"
    by simp
  have supplied:
    "\<exists>suffix. (attrs(''challenge'' \<mapsto> c)) ''original_challenge'' = Some (c0 @ suffix)
        \<and> c = persisted_value env (hashchallenge opts) (c0 @ suffix)"
    if "challenge opts = Some c0" and "c0 \<noteq> []" for c0
  proof -
    from that obtain a as where "challenge opts = Some (a # as)" and c0: "c0 = a # as"
      by (cases c0) auto
    from determine_challenge_supplied [OF this(1) determined] c0 show ?thesis
      by auto
  qed
  have generated:
    "\<exists>os. OCRASuite env (ocrasuite_or_default self) = Inr os
        \<and> c = fst (suite_create_challenge env os (entropy w) (cursor w))"
    if "challenge opts = None \<or> challenge opts = Some []"
    using determined unfolding determine_challenge_generated [OF that]
    by (auto split: sum.splits)
  from reply rows supplied generated show ?thesis
    by (intro exI [of _ ?row] exI [of _ "attrs(''challenge'' \<mapsto> c)"]) simp
qed


lemma example_run_sha256_upper:
  "returned_transaction_id (fst (create_challenge example_env example_token None
         (Some \<lparr>challenge = Some ''12345678'', addrandomchallenge = None,
                hashchallenge = Some ''SHA256''\<rparr>) example_world))
     = Some ''3074''"
  by code_simp

lemma returned_transaction_id_Some:
  assumes "returned_transaction_id (fst R) = Some t"
  obtains ok msg reply w' where "R = (Inr (ok, msg, t, reply), w')"
  using assms
  by (cases R) (auto simp add: returned_transaction_id_def split: sum.splits)

text \<open>
  C2, witness: a supplied challenge with the option \<^verbatim>\<open>SHA256\<close> in the example
  environment. The call returns, one row is persisted, and its value is the one of
  \<open>persisted_value\<close> on the cleartext.
\<close>

theorem create_challenge_persisted_value_witness:
  "returned_transaction_id (fst (create_challenge example_env example_token None
         (Some \<lparr>challenge = Some ''12345678'', addrandomchallenge = None,
                hashchallenge = Some ''SHA256''\<rparr>) example_world))
     = Some ''3074''
   \<and> (\<exists>row. challenges (snd (create_challenge example_env example_token None
         (Some \<lparr>challenge = Some ''12345678'', addrandomchallenge = None,
                hashchallenge = Some ''SHA256''\<rparr>) example_world)) = [row]
         \<and> returned_attribute (fst (create_challenge example_env example_token None
         (Some \<lparr>challenge = Some ''12345678'', addrandomchallenge = None,
                hashchallenge = Some ''SHA256''\<rparr>) example_world)) ''challenge''
             = Some (ch_challenge row)
         \<and> (\<exists>suffix. ch_challenge row
               = persisted_value example_env (Some ''SHA256'') (''12345678'' @ suffix)))"
proof -
  let ?opts = "\<lparr>challenge = Some ''12345678'', addrandomchallenge = None,
                hashchallenge = Some ''SHA256''\<rparr>"
  let ?R = "create_challenge example_env example_token None (Some ?opts) example_world"
  from example_run_sha256_upper obtain ok msg reply w' where
    run: "?R = (Inr (ok, msg, ''3074'', reply), w')"
    by (rule returned_transaction_id_Some)
  from create_challenge_persisted_value [OF run] obtain row attrs where
    "challenges w' = challenges example_world @ [row]"
    and "reply = [''attributes'' \<mapsto> attrs]"
    and "attrs ''challenge'' = Some (ch_challenge row)"
    and "\<exists>suffix. ch_challenge row
           = persisted_value example_env (Some ''SHA256'') (''12345678'' @ suffix)"
    by auto
  then show ?thesis
    unfolding run
    by (auto simp add: returned_transaction_id_def returned_attribute_def example_world_def)
qed

text \<open>
  C3. Whenever the validity time resolves, \<^verbatim>\<open>create_challenge\<close> with the options
  \<^verbatim>\<open>{challenge: "12345678", hashchallenge: "sha256"}\<close> persists one row whose value
  is the hexadecimal encoding of the SHA-256 digest of \<^verbatim>\<open>12345678\<close>, made of the
  digits \<^verbatim>\<open>0-9a-f\<close> only and two for each byte of the digest; the returned
  attributes are \<^verbatim>\<open>original_challenge\<close> = \<^verbatim>\<open>12345678\<close>, \<^verbatim>\<open>qrcode\<close> = the image
  rendered for it, and \<^verbatim>\<open>challenge\<close> = the persisted value.
\<close>

theorem create_challenge_sha256:
  assumes "resolve_validity env (config w) self = Inr validity"
  shows "create_challenge env self transactionid
           (Some \<lparr>challenge = Some ''12345678'', addrandomchallenge = None,
                  hashchallenge = Some ''sha256''\<rparr>) w
         = (Inr (True, ''Please answer the challenge'',
                 fst (create_transaction_id env (entropy w) (cursor w)),
                 [''attributes'' \<mapsto>
                    [''original_challenge'' \<mapsto> ''12345678'',
                     ''qrcode'' \<mapsto> create_img env ''12345678'',
                     ''challenge'' \<mapsto>
                        hexlify_and_unicode (sha256 env (to_bytes env ''12345678''))]]),
            w\<lparr>cursor := snd (create_transaction_id env (entropy w) (cursor w)),
              challenges := challenges w @
                [\<lparr>ch_serial = serial self,
                  ch_transaction_id = fst (create_transaction_id env (entropy w) (cursor w)),
                  ch_challenge = hexlify_and_unicode (sha256 env (to_bytes env ''12345678'')),
                  ch_data = None, ch_session = None, ch_validitytime = validity\<rparr>]\<rparr>)
       \<and> set (hexlify_and_unicode (sha256 env (to_bytes env ''12345678'')))
           \<subseteq> set ''0123456789abcdef''
       \<and> length (hexlify_and_unicode (sha256 env (to_bytes env ''12345678'')))
           = 2 * length (sha256 env (to_bytes env ''12345678''))"
proof -
  let ?opts = "\<lparr>challenge = Some ''12345678'', addrandomchallenge = None,
                hashchallenge = Some ''sha256''\<rparr>"
  have "determine_challenge env (ocrasuite_or_default self) ?opts w
          = (Inr (hexlify_and_unicode (sha256 env (to_bytes env ''12345678'')),
                  [''original_challenge'' \<mapsto> ''12345678'',
                   ''qrcode'' \<mapsto> create_img env ''12345678'']), w)"
    by (simp add: determine_challenge_def py_lower_sha256 Let_def)
  with create_challenge_returns
         [where options = "Some ?opts" and transactionid = transactionid, OF assms]
  have "create_challenge env self transactionid (Some ?opts) w
         = (Inr (True, ''Please answer the challenge'',
                 fst (create_transaction_id env (entropy w) (cursor w)),
                 [''attributes'' \<mapsto>
                    [''original_challenge'' \<mapsto> ''12345678'',
                     ''qrcode'' \<mapsto> create_img env ''12345678'',
                     ''challenge'' \<mapsto>
                        hexlify_and_unicode (sha256 env (to_bytes env ''12345678''))]]),
            w\<lparr>cursor := snd (create_transaction_id env (entropy w) (cursor w)),
              challenges := challenges w @
                [\<lparr>ch_serial = serial self,
                  ch_transaction_id = fst (create_transaction_id env (entropy w) (cursor w)),
                  ch_challenge = hexlify_and_unicode (sha256 env (to_bytes env ''12345678'')),
                  ch_data = None, ch_session = None, ch_validitytime = validity\<rparr>]\<rparr>)"
    by simp
  with hexlify_lowercase length_hexlify show ?thesis
    by blast
qed

lemma example_digest_12345678:
  "hexlify_and_unicode (sha256 example_env (to_bytes example_env ''12345678''))
     = ''2828282828282828282828282828282828282828282828282828282828282828''"
  by code_simp

lemma example_tid_0: "create_transaction_id example_env (entropy example_world) (cursor example_world) = (''3074'', 4)"
  by code_simp

text \<open>
  C3, witness: the example token, with the default validity of 120 seconds.
\<close>

theorem create_challenge_sha256_witness:
  "returned_attribute (fst (create_challenge example_env example_token None
         (Some \<lparr>challenge = Some ''12345678'', addrandomchallenge = None,
                hashchallenge = Some ''sha256''\<rparr>) example_world)) ''original_challenge''
     = Some ''12345678''
   \<and> returned_attribute (fst (create_challenge example_env example_token None
         (Some \<lparr>challenge = Some ''12345678'', addrandomchallenge = None,
                hashchallenge = Some ''sha256''\<rparr>) example_world)) ''challenge''
     = Some ''2828282828282828282828282828282828282828282828282828282828282828''
   \<and> challenges (snd (create_challenge example_env example_token None
         (Some \<lparr>challenge = Some ''12345678'', addrandomchallenge = None,
                hashchallenge = Some ''sha256''\<rparr>) example_world))
     = [\<lparr>ch_serial = ''OCRA0001'', ch_transaction_id = ''3074'',
         ch_challenge = ''2828282828282828282828282828282828282828282828282828282828282828'',
         ch_data = None, ch_session = None, ch_validitytime = 120\<rparr>]"
proof -
  have serial: "serial example_token = ''OCRA0001''"
    by (simp add: example_defs)
  have rows: "challenges example_world = []"
    by (simp add: example_world_def)
  from create_challenge_sha256 [OF example_validity, of None] show ?thesis
    by (simp add: returned_attribute_def example_digest_12345678 example_tid_0 serial rows)
qed

text \<open>
  C4, the code at the failing input. The claim: a supplied transaction id is the id
  under which the row is persisted and returned, as the docstring says (\<^verbatim>\<open>:param
  transactionid: the id of this challenge\<close>). Line 233 passes \<^verbatim>\<open>transaction_id=None\<close>
  to the constructor, so the argument is never used: with the id \<^verbatim>\<open>0123456789\<close>
  supplied, the row is persisted and returned under the id the store allocates.
\<close>

theorem create_challenge_drops_transactionid:
  "returned_transaction_id (fst (create_challenge example_env example_token (Some ''0123456789'')
         (Some \<lparr>challenge = Some ''12345678'', addrandomchallenge = None, hashchallenge = None\<rparr>)
         example_world))
     = Some ''3074''
   \<and> map ch_transaction_id (challenges (snd (create_challenge example_env example_token
         (Some ''0123456789'')
         (Some \<lparr>challenge = Some ''12345678'', addrandomchallenge = None, hashchallenge = None\<rparr>)
         example_world)))
     = [''3074'']
   \<and> create_transaction_id example_env (entropy example_world) (cursor example_world)
     = (''3074'', 4)"
  by code_simp

text \<open>
  C6. Whenever the validity time resolves, \<^verbatim>\<open>create_challenge\<close> with the options
  \<^verbatim>\<open>{challenge: "ABCDEFGH", addrandomchallenge: 4}\<close> and no hashing option persists
  one row whose value is \<^verbatim>\<open>ABCDEFGH\<close> followed by the random suffix, which has
  exactly 4 characters, all of them letters or digits; \<^verbatim>\<open>original_challenge\<close> and
  \<^verbatim>\<open>challenge\<close> in the returned attributes are that same cleartext, suffix included.
\<close>

theorem create_challenge_random_suffix:
  assumes "resolve_validity env (config w) self = Inr validity"
  shows "length (fst (get_alphanum_str 4 (entropy w) (cursor w))) = 4
       \<and> set (fst (get_alphanum_str 4 (entropy w) (cursor w))) \<subseteq> set alphanum_chars
       \<and> create_challenge env self transactionid
           (Some \<lparr>challenge = Some ''ABCDEFGH'', addrandomchallenge = Some (VInt 4),
                  hashchallenge = None\<rparr>) w
         = (Inr (True, ''Please answer the challenge'',
                 fst (create_transaction_id env (entropy w) (cursor w + 4)),
                 [''attributes'' \<mapsto>
                    [''original_challenge'' \<mapsto>
                        ''ABCDEFGH'' @ fst (get_alphanum_str 4 (entropy w) (cursor w)),
                     ''qrcode'' \<mapsto>
                        create_img env
                          (''ABCDEFGH'' @ fst (get_alphanum_str 4 (entropy w) (cursor w))),
                     ''challenge'' \<mapsto>
                        ''ABCDEFGH'' @ fst (get_alphanum_str 4 (entropy w) (cursor w))]]),
            w\<lparr>cursor := snd (create_transaction_id env (entropy w) (cursor w + 4)),
              challenges := challenges w @
                [\<lparr>ch_serial = serial self,
                  ch_transaction_id = fst (create_transaction_id env (entropy w) (cursor w + 4)),
                  ch_challenge = ''ABCDEFGH'' @ fst (get_alphanum_str 4 (entropy w) (cursor w)),
                  ch_data = None, ch_session = None, ch_validitytime = validity\<rparr>]\<rparr>)"
proof -
  let ?opts = "\<lparr>challenge = Some ''ABCDEFGH'', addrandomchallenge = Some (VInt 4),
                hashchallenge = None\<rparr>"
  let ?suffix = "fst (get_alphanum_str 4 (entropy w) (cursor w))"
  have position: "snd (get_alphanum_str 4 (entropy w) (cursor w)) = cursor w + 4"
    by (simp add: get_alphanum_str_def)
  have "determine_challenge env (ocrasuite_or_default self) ?opts w
          = (Inr (''ABCDEFGH'' @ ?suffix,
                  [''original_challenge'' \<mapsto> ''ABCDEFGH'' @ ?suffix,
                   ''qrcode'' \<mapsto> create_img env (''ABCDEFGH'' @ ?suffix)]),
             w\<lparr>cursor := cursor w + 4\<rparr>)"
    using position
    by (auto simp add: determine_challenge_def py_int_def py_lower_Nil Let_def
        split: prod.splits)
  with create_challenge_returns
         [where options = "Some ?opts" and transactionid = transactionid, OF assms]
  have run: "create_challenge env self transactionid (Some ?opts) w
         = (Inr (True, ''Please answer the challenge'',
                 fst (create_transaction_id env (entropy w) (cursor w + 4)),
                 [''attributes'' \<mapsto>
                    [''original_challenge'' \<mapsto> ''ABCDEFGH'' @ ?suffix,
                     ''qrcode'' \<mapsto> create_img env (''ABCDEFGH'' @ ?suffix),
                     ''challenge'' \<mapsto> ''ABCDEFGH'' @ ?suffix]]),
            w\<lparr>cursor := snd (create_transaction_id env (entropy w) (cursor w + 4)),
              challenges := challenges w @
                [\<lparr>ch_serial = serial self,
                  ch_transaction_id = fst (create_transaction_id env (entropy w) (cursor w + 4)),
                  ch_challenge = ''ABCDEFGH'' @ ?suffix,
                  ch_data = None, ch_session = None, ch_validitytime = validity\<rparr>]\<rparr>)"
    by simp
  have "length ?suffix = 4"
    by (simp add: length_get_alphanum_str)
  with get_alphanum_str_alphanumeric [of 4 "entropy w" "cursor w"] run show ?thesis
    by blast
qed

lemma example_suffix:
  "fst (get_alphanum_str 4 (entropy example_world) (cursor example_world)) = ''dkry''"
  by code_simp

lemma example_tid_4:
  "create_transaction_id example_env (entropy example_world) (cursor example_world + 4)
     = (''1852'', 8)"
  by code_simp

text \<open>
  C6, witness: the example token and world, where the four draws give \<^verbatim>\<open>dkry\<close>.
\<close>

theorem create_challenge_random_suffix_witness:
  "challenges (snd (create_challenge example_env example_token None
         (Some \<lparr>challenge = Some ''ABCDEFGH'', addrandomchallenge = Some (VInt 4),
                hashchallenge = None\<rparr>) example_world))
     = [\<lparr>ch_serial = ''OCRA0001'', ch_transaction_id = ''1852'',
         ch_challenge = ''ABCDEFGHdkry'',
         ch_data = None, ch_session = None, ch_validitytime = 120\<rparr>]
   \<and> returned_attribute (fst (create_challenge example_env example_token None
         (Some \<lparr>challenge = Some ''ABCDEFGH'', addrandomchallenge = Some (VInt 4),
                hashchallenge = None\<rparr>) example_world)) ''original_challenge''
     = Some ''ABCDEFGHdkry''"
proof -
  have serial: "serial example_token = ''OCRA0001''"
    by (simp add: example_defs)
  have rows: "challenges example_world = []"
    by (simp add: example_world_def)
  from create_challenge_random_suffix [OF example_validity, of None] show ?thesis
    by (simp add: returned_attribute_def example_suffix example_tid_4 serial rows)
qed

text \<open>
  The validity time of the persisted row, when the call returns on a token built by the
  constructor of the class.
\<close>

lemma persisted_validity_on_return:
  assumes "create_challenge env (init db_token) transactionid options w
             = (Inr (ok, msg, t, reply), w')"
  shows "\<exists>row. challenges w' = challenges w @ [row]
           \<and> ch_serial row = serial db_token
           \<and> py_int env (validity_ordered_lookup (config w)) = Inr (ch_validitytime row)"
proof -
  from create_challenge_Inr [OF assms] obtain validity c attrs w1 where
    validity: "resolve_validity env (config w) (init db_token) = Inr validity"
    and determined:
      "determine_challenge env (ocrasuite_or_default (init db_token))
         (case options of Some d \<Rightarrow> d | None \<Rightarrow> no_options) w = (Inr (c, attrs), w1)"
    by auto
  from create_challenge_returns [OF validity determined, of transactionid] assms
  have "challenges w' = challenges w1 @
          [\<lparr>ch_serial = serial (init db_token),
            ch_transaction_id = fst (create_transaction_id env (entropy w1) (cursor w1)),
            ch_challenge = c, ch_data = None, ch_session = None,
            ch_validitytime = validity\<rparr>]"
    by auto
  with determine_challenge_frame [OF determined] resolve_validity_ocra [OF validity]
  show ?thesis
    by (simp add: init_def set_type_def)
qed

lemma create_challenge_unparsable_default:
  assumes "config w ''DefaultChallengeValidityTime'' = Some v" and "py_int env v = Inl e"
  shows "create_challenge env self transactionid options w = (Inl e, w)"
  using assms
  by (simp add: create_challenge_def resolve_validity_def get_from_config_def)

lemma create_challenge_by_ordered_lookup:
  assumes "\<And>v. config w ''DefaultChallengeValidityTime'' = Some v \<Longrightarrow> \<exists>i. py_int env v = Inr i"
  shows "create_challenge env (init db_token) transactionid options w
         = (case py_int env (validity_ordered_lookup (config w)) of
              Inl e \<Rightarrow> (Inl e, w)
            | Inr validity \<Rightarrow>
                (case determine_challenge env (ocrasuite_or_default (init db_token))
                        (case options of Some d \<Rightarrow> d | None \<Rightarrow> no_options) w of
                   (Inl e, w1) \<Rightarrow> (Inl e, w1)
                 | (Inr (c, attrs), w1) \<Rightarrow>
                     (Inr (True, ''Please answer the challenge'',
                           fst (create_transaction_id env (entropy w1) (cursor w1)),
                           [''attributes'' \<mapsto> attrs(''challenge'' \<mapsto> c)]),
                      w1\<lparr>cursor := snd (create_transaction_id env (entropy w1) (cursor w1)),
                         challenges := challenges w @
                           [\<lparr>ch_serial = serial db_token,
                             ch_transaction_id =
                               fst (create_transaction_id env (entropy w1) (cursor w1)),
                             ch_challenge = c, ch_data = None, ch_session = None,
                             ch_validitytime = validity\<rparr>]\<rparr>)))"
proof -
  let ?self = "init db_token"
  let ?opts = "case options of Some d \<Rightarrow> d | None \<Rightarrow> no_options"
  from assms have resolved:
    "resolve_validity env (config w) ?self = py_int env (validity_ordered_lookup (config w))"
    by (rule resolve_validity_is_ordered_lookup)
  show ?thesis
  proof (cases "py_int env (validity_ordered_lookup (config w))")
    case (Inl e)
    with resolved show ?thesis
      by (simp add: create_challenge_def)
  next
    case (Inr validity)
    with resolved have validity: "resolve_validity env (config w) ?self = Inr validity"
      by simp
    obtain r w1 where
      determined: "determine_challenge env (ocrasuite_or_default ?self) ?opts w = (r, w1)"
      by (cases "determine_challenge env (ocrasuite_or_default ?self) ?opts w") blast
    show ?thesis
    proof (cases r)
      case (Inl e)
      with validity determined Inr show ?thesis
        by (simp add: create_challenge_def)
    next
      case right: (Inr ca)
      obtain c attrs where ca: "ca = (c, attrs)"
        by (cases ca) blast
      from determined right ca have determined':
        "determine_challenge env (ocrasuite_or_default ?self) ?opts w = (Inr (c, attrs), w1)"
        by simp
      from determine_challenge_frame [OF determined'] have "challenges w1 = challenges w"
        by simp
      with create_challenge_returns [OF validity determined', of transactionid]
        Inr determined' show ?thesis
        by (simp add: init_def set_type_def)
    qed
  qed
qed

text \<open>
  C7, as stated, fails. The claim: the validity is the ordered lookup, the key of the
  token type first. Line 200 converts the global value before the key of the token type
  is read: with \<^verbatim>\<open>OcraChallengeValidityTime\<close> = \<^verbatim>\<open>300\<close> and
  \<^verbatim>\<open>DefaultChallengeValidityTime\<close> = \<^verbatim>\<open>abc\<close> the ordered lookup gives 300, while
  the call raises ValueError and persists nothing.
\<close>

theorem unparsable_default_validity_raises:
  "py_int example_env (validity_ordered_lookup broken_config) = Inr 300
   \<and> raised (fst (create_challenge example_env (init example_db_token) None None
         (example_world\<lparr>config := broken_config\<rparr>)))
     = Some ValueError
   \<and> challenges (snd (create_challenge example_env (init example_db_token) None None
         (example_world\<lparr>config := broken_config\<rparr>)))
     = []"
  by code_simp

text \<open>
  C7, amended. For every invocation of \<^verbatim>\<open>create_challenge\<close> on a token built by
  the constructor of the class (type \<^verbatim>\<open>ocra\<close>): a global
  \<^verbatim>\<open>DefaultChallengeValidityTime\<close> that \<^verbatim>\<open>int\<close> rejects makes the call raise that
  error with nothing persisted, whatever the key of the token type holds; when the
  global key is unset or holds a value that \<^verbatim>\<open>int\<close> accepts, the validity is
  resolved by the ordered lookup (\<^verbatim>\<open>OcraChallengeValidityTime\<close> when set, otherwise
  \<^verbatim>\<open>DefaultChallengeValidityTime\<close> when set, otherwise 120): the call raises when
  \<^verbatim>\<open>int\<close> rejects the value looked up, and otherwise goes on to persist the row
  with the integer value of the lookup as its validity time; and whenever the call
  returns, one row is persisted, under the serial of the token, with the integer value
  of that lookup as its validity time.
\<close>

theorem validity_resolution:
  "(\<forall>v e. config w ''DefaultChallengeValidityTime'' = Some v \<longrightarrow> py_int env v = Inl e \<longrightarrow>
      create_challenge env (init db_token) transactionid options w = (Inl e, w))
   \<and> ((\<forall>v. config w ''DefaultChallengeValidityTime'' = Some v \<longrightarrow> (\<exists>i. py_int env v = Inr i)) \<longrightarrow>
      create_challenge env (init db_token) transactionid options w
        = (case py_int env (validity_ordered_lookup (config w)) of
             Inl e \<Rightarrow> (Inl e, w)
           | Inr validity \<Rightarrow>
               (case determine_challenge env (ocrasuite_or_default (init db_token))
                       (case options of Some d \<Rightarrow> d | None \<Rightarrow> no_options) w of
                  (Inl e, w1) \<Rightarrow> (Inl e, w1)
                | (Inr (c, attrs), w1) \<Rightarrow>
                    (Inr (True, ''Please answer the challenge'',
                          fst (create_transaction_id env (entropy w1) (cursor w1)),
                          [''attributes'' \<mapsto> attrs(''challenge'' \<mapsto> c)]),
                     w1\<lparr>cursor := snd (create_transaction_id env (entropy w1) (cursor w1)),
                        challenges := challenges w @
                          [\<lparr>ch_serial = serial db_token,
                            ch_transaction_id =
                              fst (create_transaction_id env (entropy w1) (cursor w1)),
                            ch_challenge = c, ch_data = None, ch_session = None,
                            ch_validitytime = validity\<rparr>]\<rparr>))))
   \<and> (\<forall>ok msg t reply w'.
        create_challenge env (init db_token) transactionid options w
          = (Inr (ok, msg, t, reply), w') \<longrightarrow>
        (\<exists>row. challenges w' = challenges w @ [row]
           \<and> ch_serial row = serial db_token
           \<and> py_int env (validity_ordered_lookup (config w)) = Inr (ch_validitytime row)))"
proof (intro conjI allI impI)
  fix v e
  assume "config w ''DefaultChallengeValidityTime'' = Some v" and "py_int env v = Inl e"
  then show "create_challenge env (init db_token) transactionid options w = (Inl e, w)"
    by (rule create_challenge_unparsable_default)
next
  assume "\<forall>v. config w ''DefaultChallengeValidityTime'' = Some v \<longrightarrow> (\<exists>i. py_int env v = Inr i)"
  then have "\<exists>i. py_int env v = Inr i"
    if "config w ''DefaultChallengeValidityTime'' = Some v" for v
    using that by blast
  then show "create_challenge env (init db_token) transactionid options w
        = (case py_int env (validity_ordered_lookup (config w)) of
             Inl e \<Rightarrow> (Inl e, w)
           | Inr validity \<Rightarrow>
               (case determine_challenge env (ocrasuite_or_default (init db_token))
                       (case options of Some d \<Rightarrow> d | None \<Rightarrow> no_options) w of
                  (Inl e, w1) \<Rightarrow> (Inl e, w1)
                | (Inr (c, attrs), w1) \<Rightarrow>
                    (Inr (True, ''Please answer the challenge'',
                          fst (create_transaction_id env (entropy w1) (cursor w1)),
                          [''attributes'' \<mapsto> attrs(''challenge'' \<mapsto> c)]),
                     w1\<lparr>cursor := snd (create_transaction_id env (entropy w1) (cursor w1)),
                        challenges := challenges w @
                          [\<lparr>ch_serial = serial db_token,
                            ch_transaction_id =
                              fst (create_transaction_id env (entropy w1) (cursor w1)),
                            ch_challenge = c, ch_data = None, ch_session = None,
                            ch_validitytime = validity\<rparr>]\<rparr>)))"
    by (rule create_challenge_by_ordered_lookup)
next
  fix ok msg t reply w'
  assume "create_challenge env (init db_token) transactionid options w
          = (Inr (ok, msg, t, reply), w')"
  then show "\<exists>row. challenges w' = challenges w @ [row]
           \<and> ch_serial row = serial db_token
           \<and> py_int env (validity_ordered_lookup (config w)) = Inr (ch_validitytime row)"
    by (rule persisted_validity_on_return)
qed

lemma example_run_configured:
  "returned_transaction_id (fst (create_challenge example_env (init example_db_token) None None
         (example_world\<lparr>config := example_config\<rparr>)))
     = Some ''9630''"
  by code_simp

lemma example_lookup:
  "py_int example_env (validity_ordered_lookup example_config) = Inr 300"
  by code_simp

lemma example_abc: "py_int example_env (VStr ''abc'') = Inl ValueError"
  by code_simp

text \<open>
  C7, witness: with both keys configured, the one of the token type (300, as text)
  wins over the global one (60); with the global one set to \<^verbatim>\<open>abc\<close> the call
  raises and leaves the state as it was.
\<close>

theorem validity_resolution_witness:
  "map ch_validitytime (challenges (snd (create_challenge example_env (init example_db_token)
         None None (example_world\<lparr>config := example_config\<rparr>))))
     = [300]
   \<and> create_challenge example_env (init example_db_token) None None
         (example_world\<lparr>config := broken_config\<rparr>)
     = (Inl ValueError, example_world\<lparr>config := broken_config\<rparr>)"
proof -
  let ?w = "example_world\<lparr>config := example_config\<rparr>"
  let ?b = "example_world\<lparr>config := broken_config\<rparr>"
  from example_run_configured obtain ok msg reply w' where
    run: "create_challenge example_env (init example_db_token) None None ?w
            = (Inr (ok, msg, ''9630'', reply), w')"
    by (rule returned_transaction_id_Some)
  from validity_resolution [of ?w example_env example_db_token None None,
      THEN conjunct2, THEN conjunct2] run
  obtain row where "challenges w' = challenges ?w @ [row]"
    and "py_int example_env (validity_ordered_lookup (config ?w)) = Inr (ch_validitytime row)"
    by blast
  with example_lookup have first:
    "map ch_validitytime (challenges (snd (create_challenge example_env
         (init example_db_token) None None ?w))) = [300]"
    unfolding run by (auto simp add: example_world_def)
  have "config ?b ''DefaultChallengeValidityTime'' = Some (VStr ''abc'')"
    by (simp add: broken_config_def)
  with validity_resolution [of ?b example_env example_db_token None None, THEN conjunct1]
    example_abc
  have "create_challenge example_env (init example_db_token) None None ?b
          = (Inl ValueError, ?b)"
    by blast
  with first show ?thesis
    by simp
qed

text \<open>
  C10. An empty challenge in the options is treated exactly like an absent one: the
  outcome and the state of \<^verbatim>\<open>create_challenge\<close> are the same for both, whatever the
  other options. When the call returns, the suite of the token was constructed, the
  persisted value is the challenge the suite generated (no suffix, no hashing), and the
  returned attributes hold the key \<^verbatim>\<open>challenge\<close> only, so neither
  \<^verbatim>\<open>original_challenge\<close> nor \<^verbatim>\<open>qrcode\<close>.
\<close>

theorem empty_challenge_as_absent:
  "create_challenge env self transactionid (Some (opts\<lparr>challenge := Some []\<rparr>)) w
     = create_challenge env self transactionid (Some (opts\<lparr>challenge := None\<rparr>)) w
   \<and> (\<forall>ok msg t reply w'.
         create_challenge env self transactionid (Some (opts\<lparr>challenge := Some []\<rparr>)) w
           = (Inr (ok, msg, t, reply), w') \<longrightarrow>
         (\<exists>os row.
            OCRASuite env (ocrasuite_or_default self) = Inr os
          \<and> reply = [''attributes'' \<mapsto>
                [''challenge'' \<mapsto> fst (suite_create_challenge env os (entropy w) (cursor w))]]
          \<and> challenges w' = challenges w @ [row]
          \<and> ch_challenge row = fst (suite_create_challenge env os (entropy w) (cursor w))))"
proof (intro conjI allI impI)
  have same: "determine_challenge env s (opts\<lparr>challenge := Some []\<rparr>) w
          = determine_challenge env s (opts\<lparr>challenge := None\<rparr>) w" for s
    by (simp add: determine_challenge_def)
  show "create_challenge env self transactionid (Some (opts\<lparr>challenge := Some []\<rparr>)) w
     = create_challenge env self transactionid (Some (opts\<lparr>challenge := None\<rparr>)) w"
    by (simp only: create_challenge_def Let_def option.case same)
next
  fix ok msg t reply w'
  let ?opts = "opts\<lparr>challenge := Some []\<rparr>"
  assume run: "create_challenge env self transactionid (Some ?opts) w
                 = (Inr (ok, msg, t, reply), w')"
  have empty: "challenge ?opts = None \<or> challenge ?opts = Some []"
    by simp
  from create_challenge_Inr [OF run] obtain validity c attrs w1 where
    validity: "resolve_validity env (config w) self = Inr validity"
    and determined:
      "determine_challenge env (ocrasuite_or_default self) ?opts w = (Inr (c, attrs), w1)"
    by auto
  from determined obtain os where
    os: "OCRASuite env (ocrasuite_or_default self) = Inr os"
    and c: "c = fst (suite_create_challenge env os (entropy w) (cursor w))"
    and attrs: "attrs = Map.empty"
    unfolding determine_challenge_generated [OF empty]
    by (auto split: sum.splits)
  let ?row = "\<lparr>ch_serial = serial self,
               ch_transaction_id = fst (create_transaction_id env (entropy w1) (cursor w1)),
               ch_challenge = c, ch_data = None, ch_session = None,
               ch_validitytime = validity\<rparr>"
  from create_challenge_returns
         [where options = "Some ?opts" and transactionid = transactionid, OF validity]
    determined run
  have "reply = [''attributes'' \<mapsto> attrs(''challenge'' \<mapsto> c)]"
    and "challenges w' = challenges w1 @ [?row]"
    by auto
  with determine_challenge_frame [OF determined] os c attrs
  show "\<exists>os row.
            OCRASuite env (ocrasuite_or_default self) = Inr os
          \<and> reply = [''attributes'' \<mapsto>
                [''challenge'' \<mapsto> fst (suite_create_challenge env os (entropy w) (cursor w))]]
          \<and> challenges w' = challenges w @ [row]
          \<and> ch_challenge row = fst (suite_create_challenge env os (entropy w) (cursor w))"
    by (intro exI [of _ os] exI [of _ ?row]) simp
qed

lemma example_run_empty:
  "returned_transaction_id (fst (create_challenge example_env example_token None
         (Some (\<lparr>challenge = Some ''ignored'', addrandomchallenge = Some (VInt 4),
                 hashchallenge = Some ''sha256''\<rparr>\<lparr>challenge := Some []\<rparr>)) example_world))
     = Some ''9630''"
  by code_simp

lemma example_generated:
  "OCRASuite example_env (ocrasuite_or_default example_token) = Inr ''OCRA-1:HOTP-SHA1-8:QH40''"
  "fst (suite_create_challenge example_env ''OCRA-1:HOTP-SHA1-8:QH40''
          (entropy example_world) (cursor example_world)) = ''3a18f6d4''"
  by code_simp+

text \<open>
  C10, witness: an empty challenge together with a suffix length and a hashing option.
\<close>

theorem empty_challenge_as_absent_witness:
  "map ch_challenge (challenges (snd (create_challenge example_env example_token None
         (Some (\<lparr>challenge = Some ''ignored'', addrandomchallenge = Some (VInt 4),
                 hashchallenge = Some ''sha256''\<rparr>\<lparr>challenge := Some []\<rparr>)) example_world)))
     = [''3a18f6d4'']
   \<and> returned_attribute (fst (create_challenge example_env example_token None
         (Some (\<lparr>challenge = Some ''ignored'', addrandomchallenge = Some (VInt 4),
                 hashchallenge = Some ''sha256''\<rparr>\<lparr>challenge := Some []\<rparr>)) example_world))
       ''original_challenge'' = None
   \<and> returned_attribute (fst (create_challenge example_env example_token None
         (Some (\<lparr>challenge = Some ''ignored'', addrandomchallenge = Some (VInt 4),
                 hashchallenge = Some ''sha256''\<rparr>\<lparr>challenge := Some []\<rparr>)) example_world))
       ''qrcode'' = None"
proof -
  let ?opts = "\<lparr>challenge = Some ''ignored'', addrandomchallenge = Some (VInt 4),
                hashchallenge = Some ''sha256''\<rparr>"
  from example_run_empty obtain ok msg reply w' where
    run: "create_challenge example_env example_token None
            (Some (?opts\<lparr>challenge := Some []\<rparr>)) example_world
            = (Inr (ok, msg, ''9630'', reply), w')"
    by (rule returned_transaction_id_Some)
  from empty_challenge_as_absent [of example_env example_token None ?opts example_world] run
  obtain os row where
    "OCRASuite example_env (ocrasuite_or_default example_token) = Inr os"
    and "reply = [''attributes'' \<mapsto>
           [''challenge'' \<mapsto> fst (suite_create_challenge example_env os
              (entropy example_world) (cursor example_world))]]"
    and "challenges w' = challenges example_world @ [row]"
    and "ch_challenge row = fst (suite_create_challenge example_env os
              (entropy example_world) (cursor example_world))"
    by blast
  with example_generated show ?thesis
    unfolding run by (auto simp add: returned_attribute_def example_world_def)
qed

end
